theory Spec2Isabelle
  imports Complex_Main
begin

section \<open>Payroll register: data model\<close>

text \<open>
  The program (\<^verbatim>\<open>PayRegister.py\<close>) builds a table of payroll rows from random draws,
  recomputes the Net Pay column and times the run on two backends.

  Numbers: Python's \<^verbatim>\<open>int\<close> is \<^typ>\<open>int\<close>. The float64 columns are modelled by
  \<^typ>\<open>real\<close>: every arithmetic operation is the exact one, so the rounding error of
  a single float64 operation (relative error about \<open>10\<^sup>-\<^sup>1\<^sup>6\<close>) is not part of the model.
  The rounding to two decimals that the program itself asks for (\<^verbatim>\<open>np.round(x, 2)\<close>) is
  modelled.
\<close>

text \<open>One row of the data frame, with the fifteen columns of the source.\<close>

record row =
  employee_name :: string
  employee_id :: string
  job_title :: string
  pay_period :: string
  regular_hours :: int
  overtime_hours :: int
  gross_wages :: real
  federal_tax :: real
  state_tax :: real
  social_security :: real
  medicare :: real
  health_insurance :: real
  retirement :: real
  other_deductions :: real
  net_pay :: real

type_synonym data_frame = "row list"

text \<open>The exceptions that the modelled code can meet.\<close>

datatype py_error = ValueError | ImportError | NameError | TypeError

text \<open>
  \<^verbatim>\<open>pd.DataFrame({...})\<close> from fifteen columns: row \<open>i\<close> takes entry \<open>i\<close> of every
  column. Pandas raises \<^verbatim>\<open>ValueError\<close> when the columns differ in length.
\<close>

definition make_data_frame ::
  "string list \<Rightarrow> string list \<Rightarrow> string list \<Rightarrow> string list \<Rightarrow> int list \<Rightarrow> int list \<Rightarrow>
   real list \<Rightarrow> real list \<Rightarrow> real list \<Rightarrow> real list \<Rightarrow> real list \<Rightarrow> real list \<Rightarrow>
   real list \<Rightarrow> real list \<Rightarrow> real list \<Rightarrow> py_error + data_frame" where
  "make_data_frame names ids titles periods reg ot gross fed st ss med health ret other net =
     (let n = length names in
      if length ids = n \<and> length titles = n \<and> length periods = n \<and> length reg = n \<and>
         length ot = n \<and> length gross = n \<and> length fed = n \<and> length st = n \<and>
         length ss = n \<and> length med = n \<and> length health = n \<and> length ret = n \<and>
         length other = n \<and> length net = n
      then Inr (map (\<lambda>i. \<lparr>employee_name = names ! i, employee_id = ids ! i,
                         job_title = titles ! i, pay_period = periods ! i,
                         regular_hours = reg ! i, overtime_hours = ot ! i,
                         gross_wages = gross ! i, federal_tax = fed ! i,
                         state_tax = st ! i, social_security = ss ! i,
                         medicare = med ! i, health_insurance = health ! i,
                         retirement = ret ! i, other_deductions = other ! i,
                         net_pay = net ! i\<rparr>) [0..<n])
      else Inl ValueError)"

section \<open>Strings: \<^verbatim>\<open>str\<close> and the format \<^verbatim>\<open>0{width}d\<close>\<close>

definition digit_char :: "nat \<Rightarrow> char" where
  "digit_char d = ''0123456789'' ! d"

text \<open>The decimal digits of a natural number, most significant first.\<close>

fun str_nat :: "nat \<Rightarrow> string" where
  "str_nat n = (if n < 10 then [digit_char n] else str_nat (n div 10) @ [digit_char (n mod 10)])"

declare str_nat.simps [simp del]

text \<open>Python's \<^verbatim>\<open>str\<close> on an integer.\<close>

definition str :: "int \<Rightarrow> string" where
  "str i = (if i < 0 then CHR ''-'' # str_nat (nat (- i)) else str_nat (nat i))"

text \<open>
  \<^verbatim>\<open>f"{i:0{w}d}"\<close>: the digits, filled with zeros on the left up to \<open>w\<close> characters
  (the sign, if any, before the zeros and counted in the width); never truncated.
\<close>

definition format_0d :: "nat \<Rightarrow> int \<Rightarrow> string" where
  "format_0d w i =
     (if i < 0
      then CHR ''-'' # replicate (w - 1 - length (str_nat (nat (- i)))) CHR ''0'' @ str_nat (nat (- i))
      else replicate (w - length (str_nat (nat i))) CHR ''0'' @ str_nat (nat i))"

text \<open>\<^verbatim>\<open>range(a, b)\<close> and \<^verbatim>\<open>arange(a, b)\<close>: the integers from \<open>a\<close> up to \<open>b - 1\<close>.\<close>

definition py_range :: "int \<Rightarrow> int \<Rightarrow> int list" where
  "py_range a b = [a..b - 1]"

text \<open>Reading a string of decimal digits back as a number (Python's \<^verbatim>\<open>int(s)\<close>).\<close>

definition digit_value :: "char \<Rightarrow> nat" where
  "digit_value c = of_char c - 48"

definition int_of_digits :: "string \<Rightarrow> nat" where
  "int_of_digits s = foldl (\<lambda>a c. 10 * a + digit_value c) 0 s"

section \<open>Random sources\<close>

text \<open>
  \<^verbatim>\<open>np.random\<close> and \<^verbatim>\<open>cp.random\<close> are global generators. A generator is a state
  of some type \<open>'g\<close> with four operations: seeding, which gives a state that depends on the
  seed alone, and one draw of each kind used by the program, which returns the value drawn
  and the next state. The generator's algorithm is a parameter of the model.
\<close>

record 'g rng =
  rng_seed :: "nat \<Rightarrow> 'g"
  next_index :: "nat \<Rightarrow> 'g \<Rightarrow> nat \<times> 'g"
  next_int :: "int \<Rightarrow> int \<Rightarrow> 'g \<Rightarrow> int \<times> 'g"
  next_uniform :: "real \<Rightarrow> real \<Rightarrow> 'g \<Rightarrow> real \<times> 'g"

text \<open>
  What the libraries document about the draws: an index into \<open>k\<close> options is below \<open>k\<close>,
  \<^verbatim>\<open>randint(low, high)\<close> lies in \<open>[low, high)\<close>, \<^verbatim>\<open>uniform(low, high)\<close> lies between
  \<open>low\<close> and \<open>high\<close>.
\<close>

definition rng_contract :: "'g rng \<Rightarrow> bool" where
  "rng_contract r \<longleftrightarrow>
     (\<forall>k g. 0 < k \<longrightarrow> fst (next_index r k g) < k) \<and>
     (\<forall>lo hi g. lo < hi \<longrightarrow> lo \<le> fst (next_int r lo hi g) \<and> fst (next_int r lo hi g) < hi) \<and>
     (\<forall>lo hi g. lo \<le> hi \<longrightarrow> lo \<le> fst (next_uniform r lo hi g) \<and> fst (next_uniform r lo hi g) \<le> hi)"

text \<open>An array of \<open>n\<close> draws: the draws are made one after the other.\<close>

fun draws :: "('g \<Rightarrow> 'a \<times> 'g) \<Rightarrow> nat \<Rightarrow> 'g \<Rightarrow> 'a list \<times> 'g" where
  "draws f 0 g = ([], g)"
| "draws f (Suc n) g =
     (case f g of (x, g1) \<Rightarrow> (case draws f n g1 of (xs, g2) \<Rightarrow> (x # xs, g2)))"

definition random_choice :: "'g rng \<Rightarrow> string list \<Rightarrow> nat \<Rightarrow> 'g \<Rightarrow> string list \<times> 'g" where
  "random_choice r a n g =
     (case draws (next_index r (length a)) n g of (idx, g') \<Rightarrow> (map (\<lambda>i. a ! i) idx, g'))"

definition random_randint :: "'g rng \<Rightarrow> int \<Rightarrow> int \<Rightarrow> nat \<Rightarrow> 'g \<Rightarrow> int list \<times> 'g" where
  "random_randint r low high n g = draws (next_int r low high) n g"

definition random_uniform :: "'g rng \<Rightarrow> real \<Rightarrow> real \<Rightarrow> nat \<Rightarrow> 'g \<Rightarrow> real list \<times> 'g" where
  "random_uniform r low high n g = draws (next_uniform r low high) n g"

section \<open>Array arithmetic and rounding\<close>

text \<open>
  Elementwise operations on arrays of one length (every array below has \<open>n_rows\<close>
  entries, see \<open>length_draws\<close>).
\<close>

definition arr_add :: "real list \<Rightarrow> real list \<Rightarrow> real list" where
  "arr_add xs ys = map2 (+) xs ys"

definition arr_sub :: "real list \<Rightarrow> real list \<Rightarrow> real list" where
  "arr_sub xs ys = map2 (-) xs ys"

definition arr_mul :: "real list \<Rightarrow> real list \<Rightarrow> real list" where
  "arr_mul xs ys = map2 (*) xs ys"

definition arr_scale :: "real list \<Rightarrow> real \<Rightarrow> real list" where
  "arr_scale xs c = map (\<lambda>x. x * c) xs"

text \<open>Rounding to the nearest integer, ties to the even one (\<^verbatim>\<open>rint\<close>).\<close>

definition rint :: "real \<Rightarrow> int" where
  "rint x =
     (let f = \<lfloor>x\<rfloor>; d = x - of_int f in
      if d < 1 / 2 then f else if 1 / 2 < d then f + 1 else if even f then f else f + 1)"

text \<open>\<^verbatim>\<open>np.round(x, decimals)\<close>: scale, round to the nearest integer, scale back.\<close>

definition np_round :: "real \<Rightarrow> nat \<Rightarrow> real" where
  "np_round x decimals = of_int (rint (x * 10 ^ decimals)) / 10 ^ decimals"

definition arr_round :: "real list \<Rightarrow> nat \<Rightarrow> real list" where
  "arr_round xs decimals = map (\<lambda>x. np_round x decimals) xs"

section \<open>The world of a run\<close>

text \<open>Speedup is a float that may be \<^verbatim>\<open>float('inf')\<close>.\<close>

datatype ratio = Finite real | Infinity

text \<open>What the program prints, one constructor per \<^verbatim>\<open>print\<close> call of the source.\<close>

datatype message =
    Cpu_Running
  | Cpu_Time int real
  | Sample data_frame
  | Gpu_Not_Installed
  | Gpu_Running
  | Gpu_Time int real
  | Summary
  | Summary_Cpu_Time real
  | Summary_Gpu_Time real
  | Gpu_Speedup ratio

text \<open>
  The state outside the program's variables: the two global generators, the clock (reading
  number \<open>k\<close> of \<^verbatim>\<open>time.time()\<close> returns \<open>clock k\<close>), what was printed so far, and
  which of the optional libraries can be imported.
\<close>

record ('g, 'c) world =
  np_state :: 'g
  cp_state :: 'c
  clock :: "nat \<Rightarrow> real"
  ticks :: nat
  stdout :: "message list"
  cudf_installed :: bool
  cupy_installed :: bool

definition time_time :: "('g, 'c) world \<Rightarrow> real \<times> ('g, 'c) world" where
  "time_time w = (clock w (ticks w), w\<lparr>ticks := Suc (ticks w)\<rparr>)"

definition print :: "message \<Rightarrow> ('g, 'c) world \<Rightarrow> ('g, 'c) world" where
  "print m w = w\<lparr>stdout := stdout w @ [m]\<rparr>"

section \<open>The generators\<close>

definition first_names :: "string list" where
  "first_names = [''John'', ''Jane'', ''Alex'', ''Emily'', ''Michael'', ''Sarah'', ''David'', ''Laura'']"

definition last_names :: "string list" where
  "last_names = [''Doe'', ''Smith'', ''Johnson'', ''Williams'', ''Brown'', ''Jones'', ''Davis'', ''Miller'']"

definition job_titles :: "string list" where
  "job_titles = [''Manager'', ''Clerk'', ''Engineer'', ''Analyst'', ''Technician'',
                 ''Salesperson'', ''Administrator'', ''Supervisor'']"

definition pay_periods :: "string list" where
  "pay_periods = [''01/01-01/15'', ''01/16-01/31'', ''02/01-02/15'',
                  ''02/16-02/28'', ''03/01-03/15'', ''03/16-03/31'']"

text \<open>
  \<^verbatim>\<open>simulate_complex_payroll_data_cpu\<close>. The first call of \<^verbatim>\<open>np.random.choice\<close>
  raises \<^verbatim>\<open>ValueError\<close> for a negative row count, before anything else is computed;
  from there on the count is a natural number \<open>n\<close>. The incoming state of \<^verbatim>\<open>np.random\<close> is
  replaced by the seeded one.
\<close>

definition simulate_complex_payroll_data_cpu ::
  "'g rng \<Rightarrow> int \<Rightarrow> ('g, 'c) world \<Rightarrow> py_error + (data_frame \<times> ('g, 'c) world)" where
  "simulate_complex_payroll_data_cpu np n_rows w =
     (let g0 = rng_seed np 42 in
      if n_rows < 0 then Inl ValueError else
      let n = nat n_rows;
          (firsts, g1) = random_choice np first_names n g0;
          (lasts, g2) = random_choice np last_names n g1;
          employee_names = map2 (\<lambda>f l. f @ '' '' @ l) firsts lasts;
          id_width = max 3 (length (str n_rows));
          employee_ids = map (format_0d id_width) (py_range 1 (n_rows + 1));
          (job_title_choices, g3) = random_choice np job_titles n g2;
          (pay_period_choices, g4) = random_choice np pay_periods n g3;
          (regular_hours, g5) = random_randint np 70 81 n g4;
          (overtime_hours, g6) = random_randint np 0 11 n g5;
          (base_rates, g7) = random_uniform np 15 50 n g6;
          gross_wages = arr_add (arr_mul (map of_int regular_hours) base_rates)
                                (arr_mul (map of_int overtime_hours) (map (\<lambda>b. 1.5 * b) base_rates));
          (federal_rates, g8) = random_uniform np 0.10 0.15 n g7;
          federal_tax = arr_mul gross_wages federal_rates;
          (state_rates, g9) = random_uniform np 0.03 0.06 n g8;
          state_tax = arr_mul gross_wages state_rates;
          social_security = arr_scale gross_wages 0.062;
          medicare = arr_scale gross_wages 0.0145;
          (health_insurance, g10) = random_uniform np 50 100 n g9;
          (retirement, g11) = random_uniform np 30 70 n g10;
          (other_deductions, g12) = random_uniform np 10 30 n g11;
          total_deductions =
            arr_add (arr_add (arr_add (arr_add (arr_add (arr_add federal_tax state_tax)
              social_security) medicare) health_insurance) retirement) other_deductions;
          net_pay = arr_sub gross_wages total_deductions
      in case make_data_frame employee_names employee_ids job_title_choices pay_period_choices
                regular_hours overtime_hours
                (arr_round gross_wages 2) (arr_round federal_tax 2) (arr_round state_tax 2)
                (arr_round social_security 2) (arr_round medicare 2)
                (arr_round health_insurance 2) (arr_round retirement 2)
                (arr_round other_deductions 2) (arr_round net_pay 2) of
           Inl e \<Rightarrow> Inl e
         | Inr df \<Rightarrow> Inr (df, w\<lparr>np_state := g12\<rparr>))"

text \<open>
  \<^verbatim>\<open>simulate_complex_payroll_data_gpu\<close>. Both imports raise \<^verbatim>\<open>ImportError\<close> when the
  library is missing. Only \<^verbatim>\<open>cp.random\<close> is seeded: the four string columns are drawn
  from \<^verbatim>\<open>np.random\<close> in whatever state it is in.
\<close>

definition simulate_complex_payroll_data_gpu ::
  "'g rng \<Rightarrow> 'c rng \<Rightarrow> int \<Rightarrow> ('g, 'c) world \<Rightarrow> py_error + (data_frame \<times> ('g, 'c) world)" where
  "simulate_complex_payroll_data_gpu np cp n_rows w =
     (if \<not> cudf_installed w then Inl ImportError else
      if \<not> cupy_installed w then Inl ImportError else
      let c0 = rng_seed cp 42 in
      if n_rows < 0 then Inl ValueError else
      let n = nat n_rows;
          (firsts, g1) = random_choice np first_names n (np_state w);
          (lasts, g2) = random_choice np last_names n g1;
          employee_names = map2 (\<lambda>f l. f @ '' '' @ l) firsts lasts;
          id_width = max 3 (length (str n_rows));
          employee_ids_arr = py_range 1 (n_rows + 1);
          employee_ids = map (format_0d id_width) employee_ids_arr;
          (job_title_choices, g3) = random_choice np job_titles n g2;
          (pay_period_choices, g4) = random_choice np pay_periods n g3;
          (regular_hours, c1) = random_randint cp 70 81 n c0;
          (overtime_hours, c2) = random_randint cp 0 11 n c1;
          (base_rates, c3) = random_uniform cp 15 50 n c2;
          gross_wages = arr_add (arr_mul (map of_int regular_hours) base_rates)
                                (arr_mul (map of_int overtime_hours) (map (\<lambda>b. 1.5 * b) base_rates));
          (federal_rates, c4) = random_uniform cp 0.10 0.15 n c3;
          federal_tax = arr_mul gross_wages federal_rates;
          (state_rates, c5) = random_uniform cp 0.03 0.06 n c4;
          state_tax = arr_mul gross_wages state_rates;
          social_security = arr_scale gross_wages 0.062;
          medicare = arr_scale gross_wages 0.0145;
          (health_insurance, c6) = random_uniform cp 50 100 n c5;
          (retirement, c7) = random_uniform cp 30 70 n c6;
          (other_deductions, c8) = random_uniform cp 10 30 n c7;
          total_deductions =
            arr_add (arr_add (arr_add (arr_add (arr_add (arr_add federal_tax state_tax)
              social_security) medicare) health_insurance) retirement) other_deductions;
          net_pay = arr_sub gross_wages total_deductions
      in case make_data_frame employee_names employee_ids job_title_choices pay_period_choices
                regular_hours overtime_hours
                (arr_round gross_wages 2) (arr_round federal_tax 2) (arr_round state_tax 2)
                (arr_round social_security 2) (arr_round medicare 2)
                (arr_round health_insurance 2) (arr_round retirement 2)
                (arr_round other_deductions 2) (arr_round net_pay 2) of
           Inl e \<Rightarrow> Inl e
         | Inr df \<Rightarrow> Inr (df, w\<lparr>np_state := g4, cp_state := c8\<rparr>))"

section \<open>Net pay recomputation\<close>

text \<open>
  \<^verbatim>\<open>compute_net_pay_cpu\<close>: the column assignment
  \<^verbatim>\<open>df["Net Pay"] = df["Gross Wages"] - (df["Federal Tax"] + ... + df["Other Deductions"])\<close>
  is elementwise, so each row gets its own difference; the sum associates to the left as
  Python's \<^verbatim>\<open>+\<close> does.
\<close>

definition compute_net_pay_cpu :: "data_frame \<Rightarrow> data_frame" where
  "compute_net_pay_cpu df =
     map (\<lambda>r. r\<lparr>net_pay := gross_wages r -
            (federal_tax r + state_tax r + social_security r + medicare r +
             health_insurance r + retirement r + other_deductions r)\<rparr>) df"

section \<open>Timed runs and the main program\<close>

text \<open>\<^verbatim>\<open>compute_cpu\<close>: generation is outside the timed span; \<^verbatim>\<open>df.head()\<close> is the first five rows.\<close>

definition compute_cpu ::
  "'g rng \<Rightarrow> int \<Rightarrow> ('g, 'c) world \<Rightarrow> py_error + (real \<times> ('g, 'c) world)" where
  "compute_cpu np n_rows w =
     (case simulate_complex_payroll_data_cpu np n_rows (print Cpu_Running w) of
        Inl e \<Rightarrow> Inl e
      | Inr (df, w1) \<Rightarrow>
          (let (start_time, w2) = time_time w1;
               df' = compute_net_pay_cpu df;
               (end_time, w3) = time_time w2;
               elapsed = end_time - start_time
           in Inr (elapsed, print (Sample (take 5 df')) (print (Cpu_Time n_rows elapsed) w3))))"

text \<open>
  \<^verbatim>\<open>compute_gpu\<close>: a failed \<^verbatim>\<open>import cudf\<close> is caught, reported and answered with
  \<^verbatim>\<open>None\<close>; otherwise generation is inside the timed span and the result is the elapsed time.
\<close>

definition compute_gpu ::
  "'g rng \<Rightarrow> 'c rng \<Rightarrow> int \<Rightarrow> ('g, 'c) world \<Rightarrow> py_error + (real option \<times> ('g, 'c) world)" where
  "compute_gpu np cp n_rows w =
     (if \<not> cudf_installed w then Inr (None, print Gpu_Not_Installed w) else
      let (start_time, w1) = time_time (print Gpu_Running w) in
      case simulate_complex_payroll_data_gpu np cp n_rows w1 of
        Inl e \<Rightarrow> Inl e
      | Inr (df, w2) \<Rightarrow>
          (let df' = map (\<lambda>r. r\<lparr>net_pay := gross_wages r -
                        (federal_tax r + state_tax r + social_security r + medicare r +
                         health_insurance r + retirement r + other_deductions r)\<rparr>) df;
               result = take 5 df';
               (end_time, w3) = time_time w2;
               elapsed = end_time - start_time
           in Inr (Some elapsed, print (Sample result) (print (Gpu_Time n_rows elapsed) w3))))"

text \<open>The \<^verbatim>\<open>--device\<close> choices accepted by the argument parser.\<close>

datatype device = Cpu | Gpu | Both

text \<open>
  Reading a local variable: \<open>None\<close> is a name that was never assigned, and reading it
  raises \<^verbatim>\<open>NameError\<close>.
\<close>

definition read_var :: "'a option \<Rightarrow> py_error + 'a" where
  "read_var v = (case v of None \<Rightarrow> Inl NameError | Some x \<Rightarrow> Inr x)"

text \<open>Line 255: \<^verbatim>\<open>cpu_time / gpu_time if gpu_time > 0 else float('inf')\<close>.\<close>

definition speedup :: "real \<Rightarrow> real \<Rightarrow> ratio" where
  "speedup cpu_time gpu_time = (if gpu_time > 0 then Finite (cpu_time / gpu_time) else Infinity)"

text \<open>
  The summary block of \<^verbatim>\<open>main\<close> (lines 252 to 256). Formatting \<^verbatim>\<open>None\<close> with
  \<^verbatim>\<open>.4f\<close> raises \<^verbatim>\<open>TypeError\<close>.
\<close>

definition print_summary ::
  "real option \<Rightarrow> real option option \<Rightarrow> ('g, 'c) world \<Rightarrow> py_error + ('g, 'c) world" where
  "print_summary cpu_time gpu_time w =
     (let w1 = print Summary w in
      case read_var cpu_time of
        Inl e \<Rightarrow> Inl e
      | Inr ct \<Rightarrow>
          (let w2 = print (Summary_Cpu_Time ct) w1 in
           case read_var gpu_time of
             Inl e \<Rightarrow> Inl e
           | Inr None \<Rightarrow> Inl TypeError
           | Inr (Some gt) \<Rightarrow>
               Inr (print (Gpu_Speedup (speedup ct gt)) (print (Summary_Gpu_Time gt) w2))))"

text \<open>
  \<^verbatim>\<open>main\<close> after argument parsing. \<open>cpu_time\<close> and \<open>gpu_time\<close> are the local
  variables: unassigned (\<open>None\<close>) until their branch runs. In the guard of the summary
  \<^verbatim>\<open>and\<close> evaluates its right operand, which reads \<open>gpu_time\<close>, only when the device
  is \<^verbatim>\<open>both\<close>.
\<close>

definition main ::
  "'g rng \<Rightarrow> 'c rng \<Rightarrow> device \<Rightarrow> int \<Rightarrow> ('g, 'c) world \<Rightarrow> py_error + ('g, 'c) world" where
  "main np cp dev n_rows w =
     (case (if dev = Cpu \<or> dev = Both
            then (case compute_cpu np n_rows w of
                    Inl e \<Rightarrow> Inl e
                  | Inr (t, w1) \<Rightarrow> Inr (Some t, w1))
            else Inr (None, w)) of
        Inl e \<Rightarrow> Inl e
      | Inr (cpu_time, w1) \<Rightarrow>
     (case (if dev = Gpu \<or> dev = Both
            then (case compute_gpu np cp n_rows w1 of
                    Inl e \<Rightarrow> Inl e
                  | Inr (t, w2) \<Rightarrow> Inr (Some t, w2))
            else Inr (None, w1)) of
        Inl e \<Rightarrow> Inl e
      | Inr (gpu_time, w2) \<Rightarrow>
     (case (if dev = Both
            then (case read_var gpu_time of Inl e \<Rightarrow> Inl e | Inr t \<Rightarrow> Inr (t \<noteq> None))
            else Inr False) of
        Inl e \<Rightarrow> Inl e
      | Inr guard \<Rightarrow> if guard then print_summary cpu_time gpu_time w2 else Inr w2)))"

section \<open>A concrete random source\<close>

text \<open>
  A generator to run the model on: its state is a tape of fractions, a draw takes the
  next fraction \<open>u\<close> of the tape (\<open>0\<close> when the tape is used up or the entry is outside
  \<open>[0, 1)\<close>) and returns the point of the requested range at fraction \<open>u\<close>. Seeding
  rewinds to the tape given.
\<close>

definition pop_unit :: "real list \<Rightarrow> real \<times> real list" where
  "pop_unit tape =
     (case tape of [] \<Rightarrow> (0, []) | u # us \<Rightarrow> (if 0 \<le> u \<and> u < 1 then u else 0, us))"

definition tape_rng :: "real list \<Rightarrow> real list rng" where
  "tape_rng tape =
     \<lparr>rng_seed = (\<lambda>s. tape),
      next_index = (\<lambda>k g. (nat \<lfloor>fst (pop_unit g) * real k\<rfloor>, snd (pop_unit g))),
      next_int = (\<lambda>lo hi g. (lo + \<lfloor>fst (pop_unit g) * of_int (hi - lo)\<rfloor>, snd (pop_unit g))),
      next_uniform = (\<lambda>lo hi g. (lo + (hi - lo) * fst (pop_unit g), snd (pop_unit g)))\<rparr>"

text \<open>A world with neither optional library, a clock that advances one second per reading.\<close>

definition bare_world :: "(real list, real list) world" where
  "bare_world =
     \<lparr>np_state = [], cp_state = [], clock = (\<lambda>k. real k), ticks = 0, stdout = [],
      cudf_installed = False, cupy_installed = False\<rparr>"

section \<open>Row-wise description of a generated table\<close>

text \<open>
  The generators work on whole columns. Read row by row, a generated table is this: row
  \<open>i\<close> is derived from eight draws (regular hours, overtime hours, base rate, federal
  rate, state rate, health insurance, retirement, other deductions), with the unrounded
  gross wages \<open>G\<close> feeding every tax, and each monetary field rounded on its own at the
  end. \<open>derived_row\<close> says that a row has this form and \<open>draws_in_range\<close> that the
  draws lie in the ranges requested from the generator; \<open>simulate_cpu_row\<close> proves the
  description from the column code.
\<close>

definition derived_row ::
  "int \<Rightarrow> int \<Rightarrow> real \<Rightarrow> real \<Rightarrow> real \<Rightarrow> real \<Rightarrow> real \<Rightarrow> real \<Rightarrow> row \<Rightarrow> bool" where
  "derived_row rh ot b fr sr h rt od r \<longleftrightarrow>
     (let G = of_int rh * b + of_int ot * (1.5 * b) in
      regular_hours r = rh \<and> overtime_hours r = ot \<and>
      gross_wages r = np_round G 2 \<and>
      federal_tax r = np_round (G * fr) 2 \<and>
      state_tax r = np_round (G * sr) 2 \<and>
      social_security r = np_round (G * 0.062) 2 \<and>
      medicare r = np_round (G * 0.0145) 2 \<and>
      health_insurance r = np_round h 2 \<and>
      retirement r = np_round rt 2 \<and>
      other_deductions r = np_round od 2 \<and>
      net_pay r = np_round (G - (G * fr + G * sr + G * 0.062 + G * 0.0145 + h + rt + od)) 2)"

definition draws_in_range ::
  "int \<Rightarrow> int \<Rightarrow> real \<Rightarrow> real \<Rightarrow> real \<Rightarrow> real \<Rightarrow> real \<Rightarrow> real \<Rightarrow> bool" where
  "draws_in_range rh ot b fr sr h rt od \<longleftrightarrow>
     70 \<le> rh \<and> rh \<le> 80 \<and> 0 \<le> ot \<and> ot \<le> 10 \<and> 15 \<le> b \<and> b \<le> 50 \<and>
     0.10 \<le> fr \<and> fr \<le> 0.15 \<and> 0.03 \<le> sr \<and> sr \<le> 0.06 \<and>
     50 \<le> h \<and> h \<le> 100 \<and> 30 \<le> rt \<and> rt \<le> 70 \<and> 10 \<le> od \<and> od \<le> 30"

section \<open>Arrays of draws and the rows of a generated table\<close>

lemma length_draws [simp]: "length (fst (draws f n g)) = n"
  by (induction n arbitrary: g) (simp_all add: split_def)

lemma draws_all:
  assumes "\<And>g. P (fst (f g))"
  shows "\<forall>x \<in> set (fst (draws f n g)). P x"
proof (induction n arbitrary: g)
  case 0
  show ?case by simp
next
  case (Suc n)
  obtain x g1 where fg: "f g = (x, g1)" by (cases "f g")
  have "P x" using assms [of g] fg by simp
  moreover have "\<forall>y \<in> set (fst (draws f n g1)). P y" by (rule Suc.IH)
  ultimately show ?case using fg by (auto split: prod.splits)
qed

lemma length_random_choice [simp]: "length (fst (random_choice r a n g)) = n"
  by (simp add: random_choice_def split_def)

lemma length_random_randint [simp]: "length (fst (random_randint r lo hi n g)) = n"
  by (simp add: random_randint_def)

lemma length_random_uniform [simp]: "length (fst (random_uniform r lo hi n g)) = n"
  by (simp add: random_uniform_def)

lemma length_py_range [simp]: "length (py_range 1 (n + 1)) = nat n"
  by (simp add: py_range_def)

lemma length_arr [simp]:
  "length (arr_add xs ys) = min (length xs) (length ys)"
  "length (arr_sub xs ys) = min (length xs) (length ys)"
  "length (arr_mul xs ys) = min (length xs) (length ys)"
  "length (arr_scale xs c) = length xs"
  "length (arr_round xs d) = length xs"
  by (simp_all add: arr_add_def arr_sub_def arr_mul_def arr_scale_def arr_round_def)

lemma nth_arr [simp]:
  "i < length xs \<Longrightarrow> i < length ys \<Longrightarrow> arr_add xs ys ! i = xs ! i + ys ! i"
  "i < length xs \<Longrightarrow> i < length ys \<Longrightarrow> arr_sub xs ys ! i = xs ! i - ys ! i"
  "i < length xs \<Longrightarrow> i < length ys \<Longrightarrow> arr_mul xs ys ! i = xs ! i * ys ! i"
  "i < length xs \<Longrightarrow> arr_scale xs c ! i = xs ! i * c"
  "i < length xs \<Longrightarrow> arr_round xs d ! i = np_round (xs ! i) d"
  by (simp_all add: arr_add_def arr_sub_def arr_mul_def arr_scale_def arr_round_def)

lemma randint_range:
  assumes "rng_contract r" "lo < hi" "i < n"
  shows "lo \<le> fst (random_randint r lo hi n g) ! i \<and> fst (random_randint r lo hi n g) ! i < hi"
proof -
  have "\<forall>x \<in> set (fst (draws (next_int r lo hi) n g)). lo \<le> x \<and> x < hi"
    using assms(1,2) by (intro draws_all) (simp add: rng_contract_def)
  then show ?thesis using assms(3) by (simp add: random_randint_def)
qed

lemma uniform_range:
  assumes "rng_contract r" "lo \<le> hi" "i < n"
  shows "lo \<le> fst (random_uniform r lo hi n g) ! i \<and> fst (random_uniform r lo hi n g) ! i \<le> hi"
proof -
  have "\<forall>x \<in> set (fst (draws (next_uniform r lo hi) n g)). lo \<le> x \<and> x \<le> hi"
    using assms(1,2) by (intro draws_all) (simp add: rng_contract_def)
  then show ?thesis using assms(3) by (simp add: random_uniform_def)
qed

lemma make_data_frame_Inr:
  assumes "make_data_frame names ids titles periods reg ot gross fed st ss med health ret other net = Inr df"
  shows "length df = length names"
    and "length reg = length names" and "length ot = length names"
    and "length gross = length names" and "length fed = length names"
    and "length st = length names" and "length ss = length names"
    and "length med = length names" and "length health = length names"
    and "length ret = length names" and "length other = length names"
    and "length net = length names" and "length ids = length names"
    and "i < length names \<Longrightarrow> df ! i =
           \<lparr>employee_name = names ! i, employee_id = ids ! i,
            job_title = titles ! i, pay_period = periods ! i,
            regular_hours = reg ! i, overtime_hours = ot ! i,
            gross_wages = gross ! i, federal_tax = fed ! i,
            state_tax = st ! i, social_security = ss ! i,
            medicare = med ! i, health_insurance = health ! i,
            retirement = ret ! i, other_deductions = other ! i,
            net_pay = net ! i\<rparr>"
  using assms by (auto simp: make_data_frame_def Let_def split: if_splits)

lemma simulate_cpu_nonneg:
  "simulate_complex_payroll_data_cpu np n_rows w = Inr (df, w') \<Longrightarrow> 0 \<le> n_rows"
  by (cases "n_rows < 0") (simp_all add: simulate_complex_payroll_data_cpu_def)

lemma simulate_cpu_row:
  assumes s: "simulate_complex_payroll_data_cpu np n_rows w = Inr (df, w')"
    and i: "i < nat n_rows"
  shows "\<exists>rh ot b fr sr h rt od.
           (rng_contract np \<longrightarrow> draws_in_range rh ot b fr sr h rt od) \<and>
           derived_row rh ot b fr sr h rt od (df ! i)"
proof -
  define n where "n = nat n_rows"
  define P1 where "P1 = random_choice np first_names n (rng_seed np 42)"
  define P2 where "P2 = random_choice np last_names n (snd P1)"
  define P3 where "P3 = random_choice np job_titles n (snd P2)"
  define P4 where "P4 = random_choice np pay_periods n (snd P3)"
  define P5 where "P5 = random_randint np 70 81 n (snd P4)"
  define P6 where "P6 = random_randint np 0 11 n (snd P5)"
  define P7 where "P7 = random_uniform np 15 50 n (snd P6)"
  define P8 where "P8 = random_uniform np 0.10 0.15 n (snd P7)"
  define P9 where "P9 = random_uniform np 0.03 0.06 n (snd P8)"
  define P10 where "P10 = random_uniform np 50 100 n (snd P9)"
  define P11 where "P11 = random_uniform np 30 70 n (snd P10)"
  define P12 where "P12 = random_uniform np 10 30 n (snd P11)"
  define G where "G = arr_add (arr_mul (map of_int (fst P5)) (fst P7))
                        (arr_mul (map of_int (fst P6)) (map (\<lambda>b. 1.5 * b) (fst P7)))"
  define T where "T = arr_add (arr_add (arr_add (arr_add (arr_add (arr_add
      (arr_mul G (fst P8)) (arr_mul G (fst P9))) (arr_scale G 0.062)) (arr_scale G 0.0145))
      (fst P10)) (fst P11)) (fst P12)"
  note defs = P1_def P2_def P3_def P4_def P5_def P6_def P7_def P8_def P9_def P10_def
    P11_def P12_def G_def T_def n_def
  from i have i': "i < n" by (simp add: n_def)
  have nn: "\<not> n_rows < 0" using simulate_cpu_nonneg [OF s] by simp
  have mk: "make_data_frame (map2 (\<lambda>f l. f @ '' '' @ l) (fst P1) (fst P2))
      (map (format_0d (max 3 (length (str n_rows)))) (py_range 1 (n_rows + 1)))
      (fst P3) (fst P4) (fst P5) (fst P6)
      (arr_round G 2) (arr_round (arr_mul G (fst P8)) 2) (arr_round (arr_mul G (fst P9)) 2)
      (arr_round (arr_scale G 0.062) 2) (arr_round (arr_scale G 0.0145) 2)
      (arr_round (fst P10) 2) (arr_round (fst P11) 2) (arr_round (fst P12) 2)
      (arr_round (arr_sub G T) 2) = Inr df"
    using s nn unfolding defs
    by (simp add: simulate_complex_payroll_data_cpu_def Let_def split_def split: sum.splits)
  have len: "length (map2 (\<lambda>f l. f @ '' '' @ l) (fst P1) (fst P2)) = n"
    by (simp add: P1_def P2_def)
  have lens: "length (fst P5) = n" "length (fst P6) = n" "length (fst P7) = n"
    "length (fst P8) = n" "length (fst P9) = n" "length (fst P10) = n"
    "length (fst P11) = n" "length (fst P12) = n"
    by (simp_all add: P5_def P6_def P7_def P8_def P9_def P10_def P11_def P12_def)
  have lG: "length G = n" by (simp add: G_def lens)
  define Gi where "Gi = of_int (fst P5 ! i) * (fst P7 ! i) + of_int (fst P6 ! i) * (1.5 * (fst P7 ! i))"
  have nG: "G ! i = Gi"
    using i' by (simp add: G_def Gi_def lens)
  have nT: "T ! i = G ! i * (fst P8 ! i) + G ! i * (fst P9 ! i) + G ! i * 0.062 + G ! i * 0.0145
      + fst P10 ! i + fst P11 ! i + fst P12 ! i"
    using i' by (simp add: T_def lens lG)
  have lT: "length T = n" by (simp add: T_def lens lG)
  have row: "df ! i = \<lparr>employee_name = map2 (\<lambda>f l. f @ '' '' @ l) (fst P1) (fst P2) ! i,
      employee_id = map (format_0d (max 3 (length (str n_rows)))) (py_range 1 (n_rows + 1)) ! i,
      job_title = fst P3 ! i, pay_period = fst P4 ! i,
      regular_hours = fst P5 ! i, overtime_hours = fst P6 ! i,
      gross_wages = arr_round G 2 ! i, federal_tax = arr_round (arr_mul G (fst P8)) 2 ! i,
      state_tax = arr_round (arr_mul G (fst P9)) 2 ! i,
      social_security = arr_round (arr_scale G 0.062) 2 ! i,
      medicare = arr_round (arr_scale G 0.0145) 2 ! i,
      health_insurance = arr_round (fst P10) 2 ! i, retirement = arr_round (fst P11) 2 ! i,
      other_deductions = arr_round (fst P12) 2 ! i, net_pay = arr_round (arr_sub G T) 2 ! i\<rparr>"
    by (rule make_data_frame_Inr(14) [OF mk]) (simp only: len i')
  have "draws_in_range (fst P5 ! i) (fst P6 ! i) (fst P7 ! i) (fst P8 ! i) (fst P9 ! i)
          (fst P10 ! i) (fst P11 ! i) (fst P12 ! i)" if c: "rng_contract np"
    unfolding draws_in_range_def
    using randint_range [OF c _ i', of 70 81 "snd P4"] randint_range [OF c _ i', of 0 11 "snd P5"]
      uniform_range [OF c _ i', of 15 50 "snd P6"] uniform_range [OF c _ i', of "0.10" "0.15" "snd P7"]
      uniform_range [OF c _ i', of "0.03" "0.06" "snd P8"] uniform_range [OF c _ i', of 50 100 "snd P9"]
      uniform_range [OF c _ i', of 30 70 "snd P10"] uniform_range [OF c _ i', of 10 30 "snd P11"]
    by (simp add: P5_def P6_def P7_def P8_def P9_def P10_def P11_def P12_def)
  moreover have "derived_row (fst P5 ! i) (fst P6 ! i) (fst P7 ! i) (fst P8 ! i) (fst P9 ! i)
          (fst P10 ! i) (fst P11 ! i) (fst P12 ! i) (df ! i)"
    unfolding derived_row_def Let_def Gi_def [symmetric]
    using i' by (simp add: row lens lG lT nT nG)
  ultimately show ?thesis by blast
qed

lemma rint_close: "\<bar>of_int (rint x) - x\<bar> \<le> 1 / 2"
proof -
  have "of_int \<lfloor>x\<rfloor> \<le> x" "x < of_int \<lfloor>x\<rfloor> + 1" by linarith+
  then show ?thesis by (auto simp: rint_def Let_def)
qed

lemma np_round_close: "\<bar>np_round x 2 - x\<bar> \<le> 1 / 200"
proof -
  have "\<bar>of_int (rint (x * 100)) - x * 100\<bar> \<le> 1 / 2" by (rule rint_close)
  then show ?thesis by (simp add: np_round_def field_simps abs_le_iff)
qed

lemma make_data_frame_ids:
  assumes "make_data_frame names ids titles periods reg ot gross fed st ss med health ret other net = Inr df"
  shows "map employee_id df = ids"
proof -
  have "length ids = length names" using assms by (rule make_data_frame_Inr(13))
  moreover have "df = map (\<lambda>i. \<lparr>employee_name = names ! i, employee_id = ids ! i,
                         job_title = titles ! i, pay_period = periods ! i,
                         regular_hours = reg ! i, overtime_hours = ot ! i,
                         gross_wages = gross ! i, federal_tax = fed ! i,
                         state_tax = st ! i, social_security = ss ! i,
                         medicare = med ! i, health_insurance = health ! i,
                         retirement = ret ! i, other_deductions = other ! i,
                         net_pay = net ! i\<rparr>) [0..<length names]"
    using assms by (simp add: make_data_frame_def Let_def split: if_splits)
  ultimately show ?thesis using map_nth [of ids] by (simp add: o_def)
qed

lemma simulate_cpu_ids:
  assumes "simulate_complex_payroll_data_cpu np n_rows w = Inr (df, w')"
  shows "map employee_id df = map (format_0d (max 3 (length (str n_rows)))) [1..n_rows]"
  using assms
  by (auto simp: simulate_complex_payroll_data_cpu_def Let_def split_def py_range_def
      split: if_splits sum.splits dest: make_data_frame_ids)

lemma simulate_cpu_world:
  assumes "simulate_complex_payroll_data_cpu np n_rows w = Inr (df, w')"
  shows "\<exists>g. w' = w\<lparr>np_state := g\<rparr>"
  using assms
  by (auto simp: simulate_complex_payroll_data_cpu_def Let_def split_def
      split: if_splits sum.splits)

lemma cpu_det:
  "map_sum id fst (simulate_complex_payroll_data_cpu np n_rows w1) =
   map_sum id fst (simulate_complex_payroll_data_cpu np n_rows w2)"
  by (simp add: simulate_complex_payroll_data_cpu_def Let_def split_def split: sum.splits)


lemma make_data_frame_ok:
  assumes "length ids = length names" "length titles = length names"
    "length periods = length names" "length reg = length names" "length ot = length names"
    "length gross = length names" "length fed = length names" "length st = length names"
    "length ss = length names" "length med = length names" "length health = length names"
    "length ret = length names" "length other = length names" "length net = length names"
  shows "\<exists>df. make_data_frame names ids titles periods reg ot gross fed st ss med health ret other net = Inr df"
  using assms by (simp add: make_data_frame_def Let_def)

lemma case_sum_Inr_ex:
  assumes "\<exists>d. M = Inr d"
  shows "\<exists>df g. (case M of Inl e \<Rightarrow> Inl e | Inr df \<Rightarrow> Inr (df, w\<lparr>np_state := G\<rparr>)) = Inr (df, w\<lparr>np_state := g\<rparr>)"
  using assms by auto

lemma simulate_cpu_total:
  assumes "0 \<le> n_rows"
  shows "\<exists>df g. simulate_complex_payroll_data_cpu np n_rows w = Inr (df, w\<lparr>np_state := g\<rparr>)"
  using assms unfolding simulate_complex_payroll_data_cpu_def Let_def split_def
  apply (simp only: not_less [symmetric] if_False)
  apply (rule case_sum_Inr_ex)
  apply (rule make_data_frame_ok)
  apply simp_all
  done

lemma simulate_gpu_installed:
  "simulate_complex_payroll_data_gpu np cp n_rows w = Inr (df, w') \<Longrightarrow>
     cudf_installed w \<and> cupy_installed w \<and> 0 \<le> n_rows"
  by (cases "cudf_installed w"; cases "cupy_installed w"; cases "n_rows < 0")
     (simp_all add: simulate_complex_payroll_data_gpu_def)

lemma simulate_gpu_ids:
  assumes "simulate_complex_payroll_data_gpu np cp n_rows w = Inr (df, w')"
  shows "map employee_id df = map (format_0d (max 3 (length (str n_rows)))) [1..n_rows]"
  using assms
  by (auto simp: simulate_complex_payroll_data_gpu_def Let_def split_def py_range_def
      split: if_splits sum.splits dest: make_data_frame_ids)

lemma simulate_gpu_world:
  assumes "simulate_complex_payroll_data_gpu np cp n_rows w = Inr (df, w')"
  shows "\<exists>g c. w' = w\<lparr>np_state := g, cp_state := c\<rparr>"
  using assms
  by (auto simp: simulate_complex_payroll_data_gpu_def Let_def split_def
      split: if_splits sum.splits)

lemma case_sum_Inr_ex2:
  assumes "\<exists>d. M = Inr d"
  shows "\<exists>df g c. (case M of Inl e \<Rightarrow> Inl e | Inr df \<Rightarrow> Inr (df, w\<lparr>np_state := G, cp_state := C\<rparr>))
           = Inr (df, w\<lparr>np_state := g, cp_state := c\<rparr>)"
proof -
  from assms obtain d where "M = Inr d" ..
  then show ?thesis by (intro exI [of _ d] exI [of _ G] exI [of _ C]) simp
qed

lemma simulate_gpu_total:
  assumes "0 \<le> n_rows" "cudf_installed w" "cupy_installed w"
  shows "\<exists>df g c. simulate_complex_payroll_data_gpu np cp n_rows w
           = Inr (df, w\<lparr>np_state := g, cp_state := c\<rparr>)"
  using assms unfolding simulate_complex_payroll_data_gpu_def Let_def split_def
  apply (simp only: not_less [symmetric] if_False not_True_eq_False)
  apply (rule case_sum_Inr_ex2)
  apply (rule make_data_frame_ok)
  apply simp_all
  done

lemma simulate_gpu_row:
  assumes s: "simulate_complex_payroll_data_gpu np cp n_rows w = Inr (df, w')"
    and i: "i < nat n_rows"
  shows "\<exists>rh ot b fr sr h rt od.
           (rng_contract cp \<longrightarrow> draws_in_range rh ot b fr sr h rt od) \<and>
           derived_row rh ot b fr sr h rt od (df ! i)"
proof -
  define n where "n = nat n_rows"
  define P1 where "P1 = random_choice np first_names n (np_state w)"
  define P2 where "P2 = random_choice np last_names n (snd P1)"
  define P3 where "P3 = random_choice np job_titles n (snd P2)"
  define P4 where "P4 = random_choice np pay_periods n (snd P3)"
  define P5 where "P5 = random_randint cp 70 81 n (rng_seed cp 42)"
  define P6 where "P6 = random_randint cp 0 11 n (snd P5)"
  define P7 where "P7 = random_uniform cp 15 50 n (snd P6)"
  define P8 where "P8 = random_uniform cp 0.10 0.15 n (snd P7)"
  define P9 where "P9 = random_uniform cp 0.03 0.06 n (snd P8)"
  define P10 where "P10 = random_uniform cp 50 100 n (snd P9)"
  define P11 where "P11 = random_uniform cp 30 70 n (snd P10)"
  define P12 where "P12 = random_uniform cp 10 30 n (snd P11)"
  define G where "G = arr_add (arr_mul (map of_int (fst P5)) (fst P7))
                        (arr_mul (map of_int (fst P6)) (map (\<lambda>b. 1.5 * b) (fst P7)))"
  define T where "T = arr_add (arr_add (arr_add (arr_add (arr_add (arr_add
      (arr_mul G (fst P8)) (arr_mul G (fst P9))) (arr_scale G 0.062)) (arr_scale G 0.0145))
      (fst P10)) (fst P11)) (fst P12)"
  note defs = P1_def P2_def P3_def P4_def P5_def P6_def P7_def P8_def P9_def P10_def
    P11_def P12_def G_def T_def n_def
  from i have i': "i < n" by (simp add: n_def)
  have nn: "\<not> n_rows < 0" "cudf_installed w" "cupy_installed w"
    using simulate_gpu_installed [OF s] by simp_all
  have mk: "make_data_frame (map2 (\<lambda>f l. f @ '' '' @ l) (fst P1) (fst P2))
      (map (format_0d (max 3 (length (str n_rows)))) (py_range 1 (n_rows + 1)))
      (fst P3) (fst P4) (fst P5) (fst P6)
      (arr_round G 2) (arr_round (arr_mul G (fst P8)) 2) (arr_round (arr_mul G (fst P9)) 2)
      (arr_round (arr_scale G 0.062) 2) (arr_round (arr_scale G 0.0145) 2)
      (arr_round (fst P10) 2) (arr_round (fst P11) 2) (arr_round (fst P12) 2)
      (arr_round (arr_sub G T) 2) = Inr df"
    using s nn unfolding defs
    by (simp add: simulate_complex_payroll_data_gpu_def Let_def split_def split: sum.splits)
  have len: "length (map2 (\<lambda>f l. f @ '' '' @ l) (fst P1) (fst P2)) = n"
    by (simp add: P1_def P2_def)
  have lens: "length (fst P5) = n" "length (fst P6) = n" "length (fst P7) = n"
    "length (fst P8) = n" "length (fst P9) = n" "length (fst P10) = n"
    "length (fst P11) = n" "length (fst P12) = n"
    by (simp_all add: P5_def P6_def P7_def P8_def P9_def P10_def P11_def P12_def)
  have lG: "length G = n" by (simp add: G_def lens)
  define Gi where "Gi = of_int (fst P5 ! i) * (fst P7 ! i) + of_int (fst P6 ! i) * (1.5 * (fst P7 ! i))"
  have nG: "G ! i = Gi"
    using i' by (simp add: G_def Gi_def lens)
  have nT: "T ! i = G ! i * (fst P8 ! i) + G ! i * (fst P9 ! i) + G ! i * 0.062 + G ! i * 0.0145
      + fst P10 ! i + fst P11 ! i + fst P12 ! i"
    using i' by (simp add: T_def lens lG)
  have lT: "length T = n" by (simp add: T_def lens lG)
  have row: "df ! i = \<lparr>employee_name = map2 (\<lambda>f l. f @ '' '' @ l) (fst P1) (fst P2) ! i,
      employee_id = map (format_0d (max 3 (length (str n_rows)))) (py_range 1 (n_rows + 1)) ! i,
      job_title = fst P3 ! i, pay_period = fst P4 ! i,
      regular_hours = fst P5 ! i, overtime_hours = fst P6 ! i,
      gross_wages = arr_round G 2 ! i, federal_tax = arr_round (arr_mul G (fst P8)) 2 ! i,
      state_tax = arr_round (arr_mul G (fst P9)) 2 ! i,
      social_security = arr_round (arr_scale G 0.062) 2 ! i,
      medicare = arr_round (arr_scale G 0.0145) 2 ! i,
      health_insurance = arr_round (fst P10) 2 ! i, retirement = arr_round (fst P11) 2 ! i,
      other_deductions = arr_round (fst P12) 2 ! i, net_pay = arr_round (arr_sub G T) 2 ! i\<rparr>"
    by (rule make_data_frame_Inr(14) [OF mk]) (simp only: len i')
  have "draws_in_range (fst P5 ! i) (fst P6 ! i) (fst P7 ! i) (fst P8 ! i) (fst P9 ! i)
          (fst P10 ! i) (fst P11 ! i) (fst P12 ! i)" if c: "rng_contract cp"
    unfolding draws_in_range_def
    using randint_range [OF c _ i', of 70 81 "rng_seed cp 42"] randint_range [OF c _ i', of 0 11 "snd P5"]
      uniform_range [OF c _ i', of 15 50 "snd P6"] uniform_range [OF c _ i', of "0.10" "0.15" "snd P7"]
      uniform_range [OF c _ i', of "0.03" "0.06" "snd P8"] uniform_range [OF c _ i', of 50 100 "snd P9"]
      uniform_range [OF c _ i', of 30 70 "snd P10"] uniform_range [OF c _ i', of 10 30 "snd P11"]
    by (simp add: P5_def P6_def P7_def P8_def P9_def P10_def P11_def P12_def)
  moreover have "derived_row (fst P5 ! i) (fst P6 ! i) (fst P7 ! i) (fst P8 ! i) (fst P9 ! i)
          (fst P10 ! i) (fst P11 ! i) (fst P12 ! i) (df ! i)"
    unfolding derived_row_def Let_def Gi_def [symmetric]
    using i' by (simp add: row lens lG lT nT nG)
  ultimately show ?thesis by blast
qed

lemma simulate_gpu_length:
  assumes "simulate_complex_payroll_data_gpu np cp n_rows w = Inr (df, w')"
  shows "length df = nat n_rows"
proof -
  have "length (map employee_id df) = nat n_rows"
    by (simp only: simulate_gpu_ids [OF assms]) simp
  then show ?thesis by simp
qed

lemma simulate_cpu_length:
  assumes "simulate_complex_payroll_data_cpu np n_rows w = Inr (df, w')"
  shows "length df = nat n_rows"
proof -
  have "length (map employee_id df) = nat n_rows"
    by (simp only: simulate_cpu_ids [OF assms]) simp
  then show ?thesis by simp
qed

section \<open>Timed runs: what they return and print\<close>

lemma make_data_frame_error:
  "make_data_frame names ids titles periods reg ot gross fed st ss med health ret other net = Inl e
     \<Longrightarrow> e = ValueError"
  by (simp add: make_data_frame_def Let_def split: if_splits)

lemma simulate_cpu_error:
  "simulate_complex_payroll_data_cpu np n_rows w = Inl e \<Longrightarrow> e = ValueError"
  by (auto simp: simulate_complex_payroll_data_cpu_def Let_def split_def
      split: if_splits sum.splits dest: make_data_frame_error)

lemma simulate_gpu_error:
  "simulate_complex_payroll_data_gpu np cp n_rows w = Inl e \<Longrightarrow> e = ValueError \<or> e = ImportError"
  by (auto simp: simulate_complex_payroll_data_gpu_def Let_def split_def
      split: if_splits sum.splits dest: make_data_frame_error)

lemma compute_cpu_error:
  "compute_cpu np n_rows w = Inl e \<Longrightarrow> e = ValueError"
  by (auto simp: compute_cpu_def Let_def split_def split: sum.splits dest: simulate_cpu_error)

lemma compute_cpu_Inr:
  assumes "compute_cpu np n_rows w = Inr (t, w')"
  shows "\<exists>df w1. simulate_complex_payroll_data_cpu np n_rows (print Cpu_Running w) = Inr (df, w1) \<and>
           t = clock w (Suc (ticks w)) - clock w (ticks w) \<and>
           stdout w' = stdout w @ [Cpu_Running, Cpu_Time n_rows t,
                                   Sample (take 5 (compute_net_pay_cpu df))] \<and>
           clock w' = clock w \<and> ticks w' = ticks w + 2 \<and>
           cudf_installed w' = cudf_installed w \<and> cupy_installed w' = cupy_installed w \<and>
           cp_state w' = cp_state w"
proof -
  define w0 where "w0 = print Cpu_Running w"
  show ?thesis
  proof (cases "simulate_complex_payroll_data_cpu np n_rows w0")
    case (Inl e)
    with assms show ?thesis by (simp add: compute_cpu_def w0_def [symmetric])
  next
    case (Inr p)
    obtain df w1 where p: "p = (df, w1)" by (cases p)
    from simulate_cpu_world [OF Inr [unfolded p]] obtain g
      where w1: "w1 = w0\<lparr>np_state := g\<rparr>" ..
    from assms show ?thesis
      unfolding compute_cpu_def w0_def [symmetric] Inr p w1
      by (auto simp: time_time_def print_def Let_def split_def w0_def)
  qed
qed

lemma compute_cpu_total:
  assumes "0 \<le> n_rows"
  shows "\<exists>t w'. compute_cpu np n_rows w = Inr (t, w')"
proof -
  from simulate_cpu_total [OF assms, of np "print Cpu_Running w"] obtain df g where
    "simulate_complex_payroll_data_cpu np n_rows (print Cpu_Running w)
       = Inr (df, (print Cpu_Running w)\<lparr>np_state := g\<rparr>)" by blast
  then show ?thesis by (simp add: compute_cpu_def Let_def split_def)
qed

lemma compute_gpu_missing:
  "\<not> cudf_installed w \<Longrightarrow> compute_gpu np cp n_rows w = Inr (None, print Gpu_Not_Installed w)"
  by (simp add: compute_gpu_def)

lemma compute_gpu_error:
  "compute_gpu np cp n_rows w = Inl e \<Longrightarrow> e = ValueError \<or> e = ImportError"
  by (auto simp: compute_gpu_def Let_def split_def split: if_splits sum.splits
      dest: simulate_gpu_error)

lemma compute_gpu_None:
  "compute_gpu np cp n_rows w = Inr (None, w') \<Longrightarrow> \<not> cudf_installed w"
  by (auto simp: compute_gpu_def Let_def split_def split: if_splits sum.splits)

lemma compute_gpu_Some:
  assumes "compute_gpu np cp n_rows w = Inr (Some t, w')"
  shows "cudf_installed w \<and> t = clock w (Suc (ticks w)) - clock w (ticks w) \<and>
         (\<exists>ms. stdout w' = stdout w @ ms \<and> Summary \<notin> set ms)"
proof (cases "cudf_installed w")
  case False
  with assms show ?thesis by (simp add: compute_gpu_def)
next
  case True
  define w1 where "w1 = snd (time_time (print Gpu_Running w))"
  show ?thesis
  proof (cases "simulate_complex_payroll_data_gpu np cp n_rows w1")
    case (Inl e)
    with assms True show ?thesis
      by (simp add: compute_gpu_def split_def w1_def [symmetric])
  next
    case (Inr p)
    obtain df w2 where p: "p = (df, w2)" by (cases p)
    from simulate_gpu_world [OF Inr [unfolded p]] obtain g c
      where w2: "w2 = w1\<lparr>np_state := g, cp_state := c\<rparr>" by blast
    from assms True show ?thesis
      unfolding compute_gpu_def Let_def split_def w1_def [symmetric] Inr p w2
      by (auto simp: time_time_def print_def w1_def)
  qed
qed

lemma compute_gpu_total:
  assumes "0 \<le> n_rows" "cudf_installed w" "cupy_installed w"
  shows "\<exists>t w'. compute_gpu np cp n_rows w = Inr (Some t, w')"
proof -
  define w1 where "w1 = snd (time_time (print Gpu_Running w))"
  have "cudf_installed w1" "cupy_installed w1"
    using assms by (simp_all add: w1_def time_time_def print_def)
  from simulate_gpu_total [OF assms(1) this, of np cp] obtain df g c where
    "simulate_complex_payroll_data_gpu np cp n_rows w1 = Inr (df, w1\<lparr>np_state := g, cp_state := c\<rparr>)"
    by blast
  then show ?thesis
    using assms(2) unfolding compute_gpu_def Let_def split_def w1_def [symmetric]
    by simp
qed

section \<open>Properties of the recomputation\<close>

text \<open>
  Claim C5. The net-pay recomputation is idempotent: applying it to a table a second time
  (the deduction fields are not touched by it) gives the same table, hence the same Net Pay
  values, as applying it once.
\<close>

theorem compute_net_pay_cpu_idempotent:
  "compute_net_pay_cpu (compute_net_pay_cpu df) = compute_net_pay_cpu df"
  by (simp add: compute_net_pay_cpu_def)

end
